theory Spec2Isabelle
  imports Complex_Main
begin

section \<open>Strings and the JavaScript built-ins the server calls\<close>

text \<open>
  A JavaScript string is modelled as a \<open>string\<close>: one \<open>char\<close> per code unit, restricted to
  the code units 0..255. \<open>String.prototype.trim\<close> strips white space and line terminators
  from both ends; below 256 these are TAB, LF, VT, FF, CR, SP and NBSP.
\<close>

definition is_ws :: "char \<Rightarrow> bool" where
  "is_ws c = ((of_char c :: nat) \<in> {9, 10, 11, 12, 13, 32, 160})"

definition trim :: "string \<Rightarrow> string" where
  "trim s = rev (dropWhile is_ws (rev (dropWhile is_ws s)))"

text \<open>
  A JavaScript number: NaN, the two infinities, or a finite binary64 value kept as the
  rational it denotes. The two zeros are merged: the server only compares its number with
  \<open>0\<close> and \<open>65535\<close>, and both zeros compare alike.
\<close>

datatype jsnum = NaN | PosInf | NegInf | Fin rat

fun isFinite :: "jsnum \<Rightarrow> bool" where
  "isFinite (Fin q) = True"
| "isFinite _ = False"

text \<open>\<open>x <= r\<close> and \<open>x > r\<close> for a finite right operand; every comparison with NaN is false.\<close>

fun num_le :: "jsnum \<Rightarrow> rat \<Rightarrow> bool" where
  "num_le (Fin q) r = (q \<le> r)"
| "num_le NegInf r = True"
| "num_le PosInf r = False"
| "num_le NaN r = False"

fun num_gt :: "jsnum \<Rightarrow> rat \<Rightarrow> bool" where
  "num_gt (Fin q) r = (q > r)"
| "num_gt PosInf r = True"
| "num_gt NegInf r = False"
| "num_gt NaN r = False"

subsection \<open>Rounding a decimal literal to binary64\<close>

text \<open>
  The numbers are kept as \<open>int\<close>: the digits of a literal can be many, and \<open>int\<close> is
  computed on in binary.
\<close>

function bitlen :: "int \<Rightarrow> int" where
  "bitlen n = (if n \<le> 0 then 0 else 1 + bitlen (n div 2))"
  by pat_completeness auto
termination
  by (relation "measure nat") auto

declare bitlen.simps [simp del]

definition pow2 :: "int \<Rightarrow> rat" where
  "pow2 e = (if 0 \<le> e then 2 ^ nat e else 1 / 2 ^ nat (- e))"

text \<open>\<open>ilog2 a b\<close> is the integer \<open>e\<close> with \<open>2^e \<le> a / b < 2^(e+1)\<close>, for positive \<open>a\<close>, \<open>b\<close>.\<close>

definition ilog2 :: "int \<Rightarrow> int \<Rightarrow> int" where
  "ilog2 a b =
     (let k = bitlen a - bitlen b
      in if (if 0 \<le> k then b * 2 ^ nat k \<le> a else b \<le> a * 2 ^ nat (- k)) then k else k - 1)"

text \<open>The integer nearest to \<open>num / den\<close>, ties to the even one.\<close>

definition round_half_even :: "int \<Rightarrow> int \<Rightarrow> int" where
  "round_half_even num den =
     (let f = num div den; r2 = 2 * (num mod den)
      in if r2 < den then f else if den < r2 then f + 1 else if even f then f else f + 1)"

text \<open>
  \<open>to_double neg a b\<close> is the binary64 value nearest to \<open>a / b\<close> for \<open>0 \<le> a\<close>, \<open>0 < b\<close> (negated when \<open>neg\<close>): 53
  significant bits for a normal value, a fixed quantum of \<open>2^-1074\<close> below \<open>2^-1022\<close>,
  infinity from \<open>2^1024\<close> on.
\<close>

definition to_double :: "bool \<Rightarrow> int \<Rightarrow> int \<Rightarrow> jsnum" where
  "to_double neg a b =
     (if a \<le> 0 then Fin 0
      else
        let e = max (ilog2 a b) (- 1022);
            s = e - 52;
            n = (if 0 \<le> s then round_half_even a (b * 2 ^ nat s)
                 else round_half_even (a * 2 ^ nat (- s)) b);
            r = of_int n * pow2 s
        in if pow2 1024 \<le> r then (if neg then NegInf else PosInf)
           else Fin (if neg then - r else r))"

subsection \<open>\<open>Number(string)\<close>\<close>

definition is_digit :: "char \<Rightarrow> bool" where
  "is_digit c = (48 \<le> (of_char c :: nat) \<and> (of_char c :: nat) \<le> 57)"

text \<open>The value of a digit in a radix up to 16, when the character is one.\<close>

definition digit_of :: "int \<Rightarrow> char \<Rightarrow> int option" where
  "digit_of radix c =
     (let n = (of_char c :: int);
          v = (if 48 \<le> n \<and> n \<le> 57 then Some (n - 48)
               else if 97 \<le> n \<and> n \<le> 102 then Some (n - 87)
               else if 65 \<le> n \<and> n \<le> 70 then Some (n - 55)
               else None)
      in case v of None \<Rightarrow> None | Some d \<Rightarrow> if d < radix then Some d else None)"

fun digits_val :: "int \<Rightarrow> int \<Rightarrow> string \<Rightarrow> int option" where
  "digits_val radix acc [] = Some acc"
| "digits_val radix acc (c # cs) =
     (case digit_of radix c of
        None \<Rightarrow> None
      | Some d \<Rightarrow> digits_val radix (acc * radix + d) cs)"

text \<open>A non-empty run of digits of the radix, as a number.\<close>

definition int_literal :: "int \<Rightarrow> string \<Rightarrow> int option" where
  "int_literal radix s = (if s = [] then None else digits_val radix 0 s)"

text \<open>The exponent part: nothing, or \<open>e\<close>/\<open>E\<close>, an optional sign and at least one digit.\<close>

definition exponent_part :: "string \<Rightarrow> int option" where
  "exponent_part s =
     (case s of
        [] \<Rightarrow> Some 0
      | c # t \<Rightarrow>
          if c = CHR ''e'' \<or> c = CHR ''E'' then
            (case t of
               [] \<Rightarrow> None
             | d # u \<Rightarrow>
                 if d = CHR ''-'' then map_option uminus (int_literal 10 u)
                 else if d = CHR ''+'' then int_literal 10 u
                 else int_literal 10 t)
          else None)"

text \<open>
  An unsigned decimal literal: digits, an optional point with optional digits, an optional
  exponent; a digit is needed before or after the point. Its value is
  \<open>digits * 10 ^ (exponent - number of fraction digits)\<close>, rounded to binary64.
\<close>

definition unsigned_decimal :: "bool \<Rightarrow> string \<Rightarrow> jsnum" where
  "unsigned_decimal neg s =
     (if s = ''Infinity'' then (if neg then NegInf else PosInf)
      else
        let ip = takeWhile is_digit s;
            r1 = dropWhile is_digit s;
            fp = (case r1 of [] \<Rightarrow> [] | c # t \<Rightarrow> if c = CHR ''.'' then takeWhile is_digit t else []);
            r2 = (case r1 of [] \<Rightarrow> [] | c # t \<Rightarrow> if c = CHR ''.'' then dropWhile is_digit t else r1)
        in if ip = [] \<and> fp = [] then NaN
           else
             (case (digits_val 10 0 (ip @ fp), exponent_part r2) of
                (Some m, Some ex) \<Rightarrow>
                  (let x = ex - int (length fp)
                   in if 0 \<le> x then to_double neg (m * 10 ^ nat x) 1
                      else to_double neg m (10 ^ nat (- x)))
              | _ \<Rightarrow> NaN))"

text \<open>
  \<open>Number(s)\<close> for a string: white space is stripped; the empty string is \<open>0\<close>; then a
  hexadecimal, octal or binary integer (unsigned), or a signed decimal literal; anything
  else is NaN.
\<close>

definition radix_literal :: "int \<Rightarrow> string \<Rightarrow> jsnum" where
  "radix_literal radix s =
     (case int_literal radix s of None \<Rightarrow> NaN | Some m \<Rightarrow> to_double False m 1)"

definition Number :: "string \<Rightarrow> jsnum" where
  "Number str =
     (let s = trim str
      in case s of
           [] \<Rightarrow> Fin 0
         | c # t \<Rightarrow>
             if c = CHR ''-'' then unsigned_decimal True t
             else if c = CHR ''+'' then unsigned_decimal False t
             else if c = CHR ''0'' \<and> t \<noteq> [] \<and> hd t \<in> {CHR ''x'', CHR ''X''} then radix_literal 16 (tl t)
             else if c = CHR ''0'' \<and> t \<noteq> [] \<and> hd t \<in> {CHR ''o'', CHR ''O''} then radix_literal 8 (tl t)
             else if c = CHR ''0'' \<and> t \<noteq> [] \<and> hd t \<in> {CHR ''b'', CHR ''B''} then radix_literal 2 (tl t)
             else unsigned_decimal False s)"

subsection \<open>\<open>path.resolve\<close> and \<open>path.isAbsolute\<close> (POSIX)\<close>

fun split_on :: "char \<Rightarrow> string \<Rightarrow> string \<Rightarrow> string list" where
  "split_on sep cur [] = [rev cur]"
| "split_on sep cur (c # cs) =
     (if c = sep then rev cur # split_on sep [] cs else split_on sep (c # cur) cs)"

fun join_with :: "string \<Rightarrow> string list \<Rightarrow> string" where
  "join_with sep [] = []"
| "join_with sep [x] = x"
| "join_with sep (x # y # ys) = x @ sep @ join_with sep (y # ys)"

text \<open>
  The segment walk of Node's \<open>normalizeString\<close>: empty segments and \<open>.\<close> are dropped,
  \<open>..\<close> removes the segment before it; at the top it is dropped, or kept when the path is
  relative (\<open>allowAbove\<close>). \<open>acc\<close> holds the kept segments, last first.
\<close>

fun norm_segs :: "bool \<Rightarrow> string list \<Rightarrow> string list \<Rightarrow> string list" where
  "norm_segs allowAbove acc [] = rev acc"
| "norm_segs allowAbove acc (s # ss) =
     (if s = [] \<or> s = ''.'' then norm_segs allowAbove acc ss
      else if s = ''..'' then
        (case acc of
           [] \<Rightarrow> norm_segs allowAbove (if allowAbove then [''..''] else []) ss
         | t # acc' \<Rightarrow>
             if t = ''..'' then norm_segs allowAbove (''..'' # acc) ss
             else norm_segs allowAbove acc' ss)
      else norm_segs allowAbove (s # acc) ss)"

text \<open>
  The right-to-left loop of \<open>path.resolve\<close>: \<open>ps\<close> holds the arguments still to visit, last
  argument first, with the working directory at the end. Empty entries are skipped; the
  loop stops at the first absolute one.
\<close>

fun resolve_loop :: "string list \<Rightarrow> string \<Rightarrow> string \<times> bool" where
  "resolve_loop [] acc = (acc, False)"
| "resolve_loop (p # ps) acc =
     (if p = [] then resolve_loop ps acc
      else if hd p = CHR ''/'' then (p @ ''/'' @ acc, True)
      else resolve_loop ps (p @ ''/'' @ acc))"

definition pathResolve :: "string \<Rightarrow> string list \<Rightarrow> string" where
  "pathResolve cwd args =
     (case resolve_loop (rev args @ [cwd]) [] of
        (resolvedPath, resolvedAbsolute) \<Rightarrow>
          let n = join_with ''/'' (norm_segs (\<not> resolvedAbsolute) [] (split_on CHR ''/'' [] resolvedPath))
          in if resolvedAbsolute then CHR ''/'' # n
             else if n \<noteq> [] then n else ''.'')"

definition isAbsolute :: "string \<Rightarrow> bool" where
  "isAbsolute p = (p \<noteq> [] \<and> hd p = CHR ''/'')"

section \<open>Configuration: \<open>readEnv\<close>\<close>

record Env =
  HOST :: string
  PORT :: jsnum
  DATA_DIR :: string
  USERNAME :: string
  PASSWORD :: string
  REALM :: string

text \<open>A thrown \<open>Error\<close>, with its message.\<close>

datatype js_error = Error string

text \<open>
  \<open>process.env.X?.trim() || d\<close>: the default is taken when the variable is unset and when
  its trimmed value is the empty string (which is falsy).
\<close>

definition or_default :: "string option \<Rightarrow> string \<Rightarrow> string" where
  "or_default v d =
     (case v of None \<Rightarrow> d | Some s \<Rightarrow> if trim s = [] then d else trim s)"

text \<open>
  \<open>readEnv\<close> reads \<open>process.env\<close> (a map from variable names to their values) and
  \<open>process.cwd()\<close>.
\<close>

definition readEnv :: "string \<Rightarrow> (string \<rightharpoonup> string) \<Rightarrow> js_error + Env" where
  "readEnv cwd penv =
     (let host = or_default (penv ''HOST'') ''0.0.0.0'';
          portRaw = or_default (penv ''PORT'') ''2345'';
          port = Number portRaw;
          dataDir = or_default (penv ''DATA_DIR'') (pathResolve cwd [cwd, ''data'']);
          username = or_default (penv ''USERNAME'') ''admin'';
          password = or_default (penv ''PASSWORD'') ''admin'';
          realm = or_default (penv ''REALM'') ''Super Productivity Sync''
      in if \<not> isFinite port \<or> num_le port 0 \<or> num_gt port 65535
         then Inl (Error (''Invalid PORT: '' @ [CHR 0x22] @ portRaw @ [CHR 0x22]))
         else if username = [] then Inl (Error ''USERNAME must not be empty'')
         else if password = [] then Inl (Error ''PASSWORD must not be empty'')
         else Inr \<lparr>HOST = host, PORT = port, DATA_DIR = dataDir,
                    USERNAME = username, PASSWORD = password, REALM = realm\<rparr>)"

section \<open>Startup: \<open>start\<close>\<close>

text \<open>
  What \<open>start\<close> writes to the console. The summary line is kept in its parts (host, port,
  data directory, user name) instead of the joined text, so that the port stays a number.
\<close>

datatype console_line =
    Warn string
  | Started string jsnum string string

definition weak_password_warning :: string where
  "weak_password_warning =
     ''[cross-device-sync-server] WARNING: You are using a default/weak PASSWORD. Set a strong PASSWORD.''"

text \<open>
  The part of \<open>start\<close> after the server listens: the warning, then the summary.
\<close>

definition startup_lines :: "Env \<Rightarrow> console_line list" where
  "startup_lines env =
     (if PASSWORD env = ''admin'' \<or> PASSWORD env = ''change-me''
      then [Warn weak_password_warning] else [])
     @ [Started (HOST env) (PORT env) (DATA_DIR env) (USERNAME env)]"

text \<open>
  \<open>start\<close> against its surroundings: \<open>existsSync\<close> tells whether a path exists,
  \<open>mkdirSync\<close> returns the message of the error it throws (or \<open>None\<close>), \<open>listen\<close> returns
  the error the server emits instead of listening (or \<open>None\<close>). A failure is the error the
  returned promise rejects with; a success is what was written to the console. Building
  the user manager, the privilege manager, the WebDAV server and the HTTP server, and
  registering the signal handlers, neither fail nor write to the console; they are left
  out. The request listener is modelled on its own below.
\<close>

definition start ::
  "string \<Rightarrow> (string \<rightharpoonup> string) \<Rightarrow> (string \<Rightarrow> bool) \<Rightarrow> (string \<Rightarrow> string option) \<Rightarrow>
   (jsnum \<Rightarrow> string \<Rightarrow> js_error option) \<Rightarrow> js_error + console_line list" where
  "start cwd penv existsSync mkdirSync listen =
     (case readEnv cwd penv of
        Inl e \<Rightarrow> Inl e
      | Inr env \<Rightarrow>
          (case (if \<not> existsSync (DATA_DIR env) then mkdirSync (DATA_DIR env) else None) of
             Some msg \<Rightarrow>
               Inl (Error (''Unable to create DATA_DIR '' @ [CHR 0x22] @ DATA_DIR env @ [CHR 0x22]
                     @ ''. Set DATA_DIR to a writable folder. Original error: '' @ msg))
           | None \<Rightarrow>
               (case listen (PORT env) (HOST env) of
                  Some e \<Rightarrow> Inl e
                | None \<Rightarrow> Inr (startup_lines env))))"

section \<open>The HTTP front door\<close>

text \<open>
  A value of \<open>req.headers\<close>: a string, or an array of strings. Header names of a request
  are lower case there.
\<close>

datatype header_value = Str string | Arr "string list"

record request =
  "method" :: string
  url :: string
  headers :: "string \<rightharpoonup> header_value"

text \<open>
  A \<open>ServerResponse\<close>: \<open>setHeader\<close> stores a header under its lower-cased name, replacing
  what was there; \<open>getHeader\<close> looks it up the same way; \<open>end\<close> writes the body and
  finishes the response. \<open>body\<close> is what is sent to the client. Node creates the response
  for its request and sends no body in answer to a \<open>HEAD\<close> request (\<open>hasBody\<close>), nor with
  the status codes 204, 304 and 100..199: data written to such a response is dropped.
\<close>

record response =
  statusCode :: nat
  resHeaders :: "string \<rightharpoonup> string"
  body :: string
  finished :: bool
  hasBody :: bool

definition new_response :: "request \<Rightarrow> response" where
  "new_response req =
     \<lparr>statusCode = 200, resHeaders = Map.empty, body = [], finished = False,
      hasBody = (method req \<noteq> ''HEAD'')\<rparr>"

definition lower_char :: "char \<Rightarrow> char" where
  "lower_char c =
     (if 65 \<le> (of_char c :: nat) \<and> (of_char c :: nat) \<le> 90
      then char_of ((of_char c :: nat) + 32) else c)"

definition toLowerCase :: "string \<Rightarrow> string" where
  "toLowerCase s = map lower_char s"

definition setHeader :: "string \<Rightarrow> string \<Rightarrow> response \<Rightarrow> response" where
  "setHeader name v res = res\<lparr>resHeaders := (resHeaders res)(toLowerCase name \<mapsto> v)\<rparr>"

definition getHeader :: "response \<Rightarrow> string \<Rightarrow> string option" where
  "getHeader res name = resHeaders res (toLowerCase name)"

definition sends_body :: "response \<Rightarrow> bool" where
  "sends_body res =
     (hasBody res \<and> statusCode res \<noteq> 204 \<and> statusCode res \<noteq> 304 \<and>
      \<not> (100 \<le> statusCode res \<and> statusCode res \<le> 199))"

definition end_response :: "string \<Rightarrow> response \<Rightarrow> response" where
  "end_response data res =
     res\<lparr>body := (if sends_body res then body res @ data else body res), finished := True\<rparr>"

text \<open>\<open>typeof origin === 'string' && origin.length ? origin : '*'\<close>\<close>

definition allowOrigin :: "request \<Rightarrow> string" where
  "allowOrigin req =
     (case headers req ''origin'' of
        Some (Str origin) \<Rightarrow> if origin \<noteq> [] then origin else ''*''
      | _ \<Rightarrow> ''*'')"

definition setCorsHeaders :: "request \<Rightarrow> response \<Rightarrow> response" where
  "setCorsHeaders req res =
     (setHeader ''Access-Control-Expose-Headers''
        (join_with '', '' [''etag'', ''content-length'', ''content-type'', ''date'', ''last-modified''])
     (setHeader ''Access-Control-Allow-Headers''
        (join_with '', '' [''authorization'', ''content-type'', ''depth'', ''destination'',
           ''overwrite'', ''if'', ''if-match'', ''if-none-match'', ''range'', ''accept'',
           ''user-agent''])
     (setHeader ''Access-Control-Allow-Methods''
        (join_with '', '' [''GET'', ''HEAD'', ''POST'', ''PUT'', ''DELETE'', ''OPTIONS'',
           ''PROPFIND'', ''PROPPATCH'', ''MKCOL'', ''COPY'', ''MOVE'', ''LOCK'', ''UNLOCK''])
     (setHeader ''Referrer-Policy'' ''no-referrer''
     (setHeader ''X-Content-Type-Options'' ''nosniff''
     (setHeader ''Access-Control-Allow-Credentials'' ''true''
     (setHeader ''Vary'' ''Origin''
     (setHeader ''Access-Control-Allow-Origin'' (allowOrigin req) res))))))))"

text \<open>
  The request listener given to \<open>createServer\<close>. \<open>wServer.executeRequest\<close> belongs to the
  \<open>webdav-server\<close> package: it is a parameter here (\<open>engine\<close>), a function that gets the
  request, the response as the listener left it and the state \<open>'s\<close> it owns (users,
  privileges, the file system under \<open>DATA_DIR\<close>), and returns the response it finishes and
  its new state.
\<close>

definition requestListener ::
  "(request \<Rightarrow> response \<Rightarrow> 's \<Rightarrow> response \<times> 's) \<Rightarrow> request \<Rightarrow> response \<Rightarrow> 's \<Rightarrow> response \<times> 's" where
  "requestListener engine req res st =
     (let res1 = setCorsHeaders req res
      in if method req = ''OPTIONS'' then
           (end_response [] (res1\<lparr>statusCode := 204\<rparr>), st)
         else if url req = ''/health'' then
           (end_response ''ok''
              (setHeader ''Content-Type'' ''text/plain; charset=utf-8'' (res1\<lparr>statusCode := 200\<rparr>)), st)
         else engine req res1 st)"

text \<open>One request served: the listener runs on the fresh response of the request.\<close>

definition serve ::
  "(request \<Rightarrow> response \<Rightarrow> 's \<Rightarrow> response \<times> 's) \<Rightarrow> request \<Rightarrow> 's \<Rightarrow> response \<times> 's" where
  "serve engine req st = requestListener engine req (new_response req) st"


text \<open>
  The five headers with a fixed value on every response, and the property that a response
  carries them for a given request.
\<close>

definition carries_fixed_headers :: "request \<Rightarrow> response \<Rightarrow> bool" where
  "carries_fixed_headers req res =
     (getHeader res ''Access-Control-Allow-Origin'' = Some (allowOrigin req) \<and>
      getHeader res ''Vary'' = Some ''Origin'' \<and>
      getHeader res ''Access-Control-Allow-Credentials'' = Some ''true'' \<and>
      getHeader res ''X-Content-Type-Options'' = Some ''nosniff'' \<and>
      getHeader res ''Referrer-Policy'' = Some ''no-referrer'')"

text \<open>The three lists a preflight answer is read for.\<close>

definition carries_cors_lists :: "response \<Rightarrow> bool" where
  "carries_cors_lists res =
     (getHeader res ''Access-Control-Allow-Methods'' =
        Some ''GET, HEAD, POST, PUT, DELETE, OPTIONS, PROPFIND, PROPPATCH, MKCOL, COPY, MOVE, LOCK, UNLOCK'' \<and>
      getHeader res ''Access-Control-Allow-Headers'' =
        Some ''authorization, content-type, depth, destination, overwrite, if, if-match, if-none-match, range, accept, user-agent'' \<and>
      getHeader res ''Access-Control-Expose-Headers'' =
        Some ''etag, content-length, content-type, date, last-modified'')"

text \<open>
  An example of the rest of an engine, used only to run the theorems below on concrete
  requests: it answers every request with \<open>401\<close> and a challenge, and counts its calls in
  its state.
\<close>

definition example_engine :: "request \<Rightarrow> response \<Rightarrow> nat \<Rightarrow> response \<times> nat" where
  "example_engine req res calls =
     (end_response ''Unauthorized''
        (setHeader ''WWW-Authenticate'' ''Basic realm=Test Realm'' (res\<lparr>statusCode := 401\<rparr>)),
      Suc calls)"

section \<open>Properties of the configuration\<close>

lemma or_default_nonempty: "d \<noteq> [] \<Longrightarrow> or_default v d \<noteq> []"
  by (cases v) (simp_all add: or_default_def)

lemma or_default_cases:
  "or_default v d = (case v of None \<Rightarrow> d | Some s \<Rightarrow> if trim s = [] then d else trim s)"
  by (simp add: or_default_def)

text \<open>
  The user name and the password of \<open>readEnv\<close> are never empty, so only the port check
  decides between an error and a configuration.
\<close>

lemma readEnv_port_gate:
  "readEnv cwd penv =
     (if \<not> isFinite (Number (or_default (penv ''PORT'') ''2345''))
         \<or> num_le (Number (or_default (penv ''PORT'') ''2345'')) 0
         \<or> num_gt (Number (or_default (penv ''PORT'') ''2345'')) 65535
      then Inl (Error (''Invalid PORT: '' @ [CHR 0x22] @ or_default (penv ''PORT'') ''2345'' @ [CHR 0x22]))
      else Inr \<lparr>HOST = or_default (penv ''HOST'') ''0.0.0.0'',
                 PORT = Number (or_default (penv ''PORT'') ''2345''),
                 DATA_DIR = or_default (penv ''DATA_DIR'') (pathResolve cwd [cwd, ''data'']),
                 USERNAME = or_default (penv ''USERNAME'') ''admin'',
                 PASSWORD = or_default (penv ''PASSWORD'') ''admin'',
                 REALM = or_default (penv ''REALM'') ''Super Productivity Sync''\<rparr>)"
  by (simp add: readEnv_def Let_def or_default_nonempty)

lemma pathResolve_cwd_absolute:
  assumes "isAbsolute cwd"
  shows "isAbsolute (pathResolve cwd [cwd, ''data''])"
proof -
  from assms have "cwd \<noteq> []" and "hd cwd = CHR ''/''"
    by (simp_all add: isAbsolute_def)
  then have "resolve_loop (rev [cwd, ''data''] @ [cwd]) [] = (cwd @ ''/'' @ ''data/'', True)"
    by simp
  then show ?thesis
    by (simp add: pathResolve_def isAbsolute_def)
qed

subsection \<open>Runs on concrete inputs\<close>

lemmas Number_defs = Number_def trim_def is_ws_def unsigned_decimal_def is_digit_def digit_of_def
  exponent_part_def int_literal_def radix_literal_def to_double_def ilog2_def bitlen.simps
  round_half_even_def pow2_def Let_def

lemma Number_runs:
  "Number ''2345'' = Fin 2345"
  "Number ''80.5'' = Fin (161 / 2)"
  "Number ''0'' = Fin 0"
  "Number ''65536'' = Fin 65536"
  "Number ''65535'' = Fin 65535"
  "Number ''http'' = NaN"
  by (simp_all add: Number_defs)

lemma trim_runs:
  "trim ''80.5'' = ''80.5''"
  "trim ''   '' = []"
  "trim [] = []"
  "trim '' /data '' = ''/data''"
  "trim ''./data'' = ''./data''"
  "trim ''0'' = ''0''"
  "trim ''65536'' = ''65536''"
  "trim ''65535'' = ''65535''"
  "trim ''http'' = ''http''"
  "trim ''admin'' = ''admin''"
  "trim ''change-me'' = ''change-me''"
  "trim ''correct horse battery staple'' = ''correct horse battery staple''"
  by (simp_all add: trim_def is_ws_def)

lemma pathResolve_run: "pathResolve ''/srv/app'' [''/srv/app'', ''data''] = ''/srv/app/data''"
  by (simp add: pathResolve_def)

lemmas runs = readEnv_port_gate or_default_def trim_runs Number_runs pathResolve_run

lemma readEnv_no_variables:
  "readEnv ''/srv/app'' Map.empty =
     Inr \<lparr>HOST = ''0.0.0.0'', PORT = Fin 2345, DATA_DIR = ''/srv/app/data'',
           USERNAME = ''admin'', PASSWORD = ''admin'', REALM = ''Super Productivity Sync''\<rparr>"
  by (simp add: runs)

lemma readEnv_blank_credentials:
  "readEnv ''/srv/app'' [''USERNAME'' \<mapsto> ''   '', ''PASSWORD'' \<mapsto> []] =
     Inr \<lparr>HOST = ''0.0.0.0'', PORT = Fin 2345, DATA_DIR = ''/srv/app/data'',
           USERNAME = ''admin'', PASSWORD = ''admin'', REALM = ''Super Productivity Sync''\<rparr>"
  by (simp add: runs)

lemma readEnv_absolute_data_dir:
  "readEnv ''/srv/app'' [''DATA_DIR'' \<mapsto> '' /data ''] =
     Inr \<lparr>HOST = ''0.0.0.0'', PORT = Fin 2345, DATA_DIR = ''/data'',
           USERNAME = ''admin'', PASSWORD = ''admin'', REALM = ''Super Productivity Sync''\<rparr>"
  by (simp add: runs)

lemma readEnv_port_zero:
  "readEnv ''/srv/app'' [''PORT'' \<mapsto> ''0''] =
     Inl (Error (''Invalid PORT: '' @ [CHR 0x22] @ ''0'' @ [CHR 0x22]))"
  by (simp add: runs)

lemma readEnv_port_too_large:
  "readEnv ''/srv/app'' [''PORT'' \<mapsto> ''65536''] =
     Inl (Error (''Invalid PORT: '' @ [CHR 0x22] @ ''65536'' @ [CHR 0x22]))"
  by (simp add: runs)

lemma readEnv_port_not_a_number:
  "readEnv ''/srv/app'' [''PORT'' \<mapsto> ''http''] =
     Inl (Error (''Invalid PORT: '' @ [CHR 0x22] @ ''http'' @ [CHR 0x22]))"
  by (simp add: runs)

lemma readEnv_port_max:
  "readEnv ''/srv/app'' [''PORT'' \<mapsto> ''65535''] =
     Inr \<lparr>HOST = ''0.0.0.0'', PORT = Fin 65535, DATA_DIR = ''/srv/app/data'',
           USERNAME = ''admin'', PASSWORD = ''admin'', REALM = ''Super Productivity Sync''\<rparr>"
  by (simp add: runs)

subsection \<open>The port check\<close>

text \<open>
  C6. The claim: the port is accepted only if it parses as an integer in 1..65535, and
  every other port string fails with the invalid-port error. \<open>readEnv\<close> checks that the
  parsed number is finite, above \<open>0\<close> and at most \<open>65535\<close>, and never that it is an
  integer: with \<open>PORT=80.5\<close> it returns a configuration whose port is \<open>80.5\<close>.
\<close>

theorem fractional_port_accepted:
  "readEnv ''/srv/app'' [''PORT'' \<mapsto> ''80.5''] =
     Inr \<lparr>HOST = ''0.0.0.0'', PORT = Fin (161 / 2), DATA_DIR = ''/srv/app/data'',
           USERNAME = ''admin'', PASSWORD = ''admin'', REALM = ''Super Productivity Sync''\<rparr>"
  by (simp add: runs)

theorem fractional_port_accepted_witness:
  "\<exists>env. readEnv ''/srv/app'' [''PORT'' \<mapsto> ''80.5''] = Inr env \<and>
         PORT env = Fin (161 / 2) \<and> (161 / 2 :: rat) \<notin> \<int>"
  using fractional_port_accepted by simp

subsection \<open>The storage root\<close>

text \<open>
  C7, as the claim states it, fails: a \<open>DATA_DIR\<close> that is set is used as supplied, only
  trimmed, and is not resolved against the working directory. \<open>DATA_DIR=./data\<close> gives a
  configuration whose storage root is the relative path \<open>./data\<close>.
\<close>

theorem relative_data_dir_kept:
  "readEnv ''/srv/app'' [''DATA_DIR'' \<mapsto> ''./data''] =
     Inr \<lparr>HOST = ''0.0.0.0'', PORT = Fin 2345, DATA_DIR = ''./data'',
           USERNAME = ''admin'', PASSWORD = ''admin'', REALM = ''Super Productivity Sync''\<rparr>
   \<and> \<not> isAbsolute ''./data''"
  by (simp add: runs isAbsolute_def)

text \<open>
  C7, amended. Whenever \<open>readEnv\<close> returns a configuration (the working directory being
  an absolute path, as \<open>process.cwd()\<close> is): if \<open>DATA_DIR\<close> is unset, empty or only white
  space, the storage root is \<open>path.resolve(cwd, 'data')\<close>, an absolute path; if it is set,
  the storage root is the supplied value with the white space around it removed, as it
  is.
\<close>

theorem data_dir_resolution:
  assumes "isAbsolute cwd" and "readEnv cwd penv = Inr env"
  shows "(case penv ''DATA_DIR'' of
            None \<Rightarrow> DATA_DIR env = pathResolve cwd [cwd, ''data''] \<and> isAbsolute (DATA_DIR env)
          | Some d \<Rightarrow>
              if trim d = []
              then DATA_DIR env = pathResolve cwd [cwd, ''data''] \<and> isAbsolute (DATA_DIR env)
              else DATA_DIR env = trim d)"
proof -
  from assms(2)
  have "DATA_DIR env = or_default (penv ''DATA_DIR'') (pathResolve cwd [cwd, ''data''])"
    by (auto simp add: readEnv_port_gate split: if_splits)
  with pathResolve_cwd_absolute [OF assms(1)] show ?thesis
    by (simp add: or_default_cases split: option.splits)
qed

theorem data_dir_resolution_witness:
  "\<exists>env env'. readEnv ''/srv/app'' Map.empty = Inr env \<and>
      DATA_DIR env = ''/srv/app/data'' \<and> isAbsolute (DATA_DIR env) \<and>
      readEnv ''/srv/app'' [''DATA_DIR'' \<mapsto> '' /data ''] = Inr env' \<and>
      DATA_DIR env' = ''/data''"
proof -
  have abs: "isAbsolute ''/srv/app''"
    by (simp add: isAbsolute_def)
  from data_dir_resolution [OF abs readEnv_no_variables]
       data_dir_resolution [OF abs readEnv_absolute_data_dir]
  show ?thesis
    by (simp add: readEnv_no_variables readEnv_absolute_data_dir trim_runs pathResolve_run)
qed

subsection \<open>The credentials\<close>

text \<open>
  C10. The two checks \<open>!username\<close> and \<open>!password\<close> of \<open>readEnv\<close> never fire: a user name
  or password that is unset, empty or only white space has been replaced by \<open>admin\<close>
  before them. So \<open>readEnv\<close> never throws the two "must not be empty" errors, its only
  error is the invalid-port one, and every configuration it returns has a non-empty user
  name and a non-empty password.
\<close>

theorem credential_checks_unreachable:
  "readEnv cwd penv \<noteq> Inl (Error ''USERNAME must not be empty'') \<and>
   readEnv cwd penv \<noteq> Inl (Error ''PASSWORD must not be empty'') \<and>
   (case readEnv cwd penv of
      Inl e \<Rightarrow>
        e = Error (''Invalid PORT: '' @ [CHR 0x22] @ or_default (penv ''PORT'') ''2345'' @ [CHR 0x22])
    | Inr env \<Rightarrow>
        USERNAME env \<noteq> [] \<and> PASSWORD env \<noteq> [] \<and>
        USERNAME env = (case penv ''USERNAME'' of None \<Rightarrow> ''admin''
                        | Some u \<Rightarrow> if trim u = [] then ''admin'' else trim u) \<and>
        PASSWORD env = (case penv ''PASSWORD'' of None \<Rightarrow> ''admin''
                        | Some p \<Rightarrow> if trim p = [] then ''admin'' else trim p))"
  by (auto simp add: readEnv_port_gate or_default_cases split: option.splits)

theorem credential_checks_unreachable_witness:
  "\<exists>env. readEnv ''/srv/app'' [''USERNAME'' \<mapsto> ''   '', ''PASSWORD'' \<mapsto> []] = Inr env \<and>
         USERNAME env = ''admin'' \<and> PASSWORD env = ''admin'' \<and>
         trim ''   '' = [] \<and> trim [] = []"
  using credential_checks_unreachable
          [of "''/srv/app''" "[''USERNAME'' \<mapsto> ''   '', ''PASSWORD'' \<mapsto> []]"]
  by (simp add: readEnv_blank_credentials trim_runs)

section \<open>Properties of the startup\<close>

lemma start_weak_password:
  "start ''/srv/app'' [''USERNAME'' \<mapsto> ''sync'', ''PASSWORD'' \<mapsto> ''change-me'']
     (\<lambda>p. False) (\<lambda>p. None) (\<lambda>port host. None) =
   Inr [Warn weak_password_warning, Started ''0.0.0.0'' (Fin 2345) ''/srv/app/data'' ''sync'']"
  by (simp add: start_def startup_lines_def runs trim_def is_ws_def)

text \<open>
  C8, as the claim states it, fails: \<open>start\<close> compares only the password with
  \<open>admin\<close> and \<open>change-me\<close>. With the user name \<open>admin\<close> and a strong password the
  startup succeeds and writes the summary line alone, without a warning.
\<close>

theorem default_username_no_warning:
  "start ''/srv/app'' [''USERNAME'' \<mapsto> ''admin'', ''PASSWORD'' \<mapsto> ''correct horse battery staple'']
     (\<lambda>p. False) (\<lambda>p. None) (\<lambda>port host. None) =
   Inr [Started ''0.0.0.0'' (Fin 2345) ''/srv/app/data'' ''admin'']"
  by (simp add: start_def startup_lines_def runs)

text \<open>
  C8, amended. On every successful startup the console output is the lines of
  \<open>startup_lines\<close> for the configuration read, and it holds a warning if and only if the
  password (the trimmed \<open>PASSWORD\<close>, or \<open>admin\<close> when that is unset or blank) is \<open>admin\<close> or
  \<open>change-me\<close>. The user name has no part in it.
\<close>

theorem weak_password_warning_iff:
  assumes "start cwd penv existsSync mkdirSync listen = Inr out"
  shows "\<exists>env. readEnv cwd penv = Inr env \<and> out = startup_lines env \<and>
           ((\<exists>w. Warn w \<in> set out) =
            (or_default (penv ''PASSWORD'') ''admin'' = ''admin'' \<or>
             or_default (penv ''PASSWORD'') ''admin'' = ''change-me''))"
proof -
  from assms obtain env where e: "readEnv cwd penv = Inr env" and o: "out = startup_lines env"
    by (auto simp add: start_def split: sum.splits option.splits if_splits)
  from e have "PASSWORD env = or_default (penv ''PASSWORD'') ''admin''"
    by (auto simp add: readEnv_port_gate split: if_splits)
  with e o show ?thesis
    by (auto simp add: startup_lines_def)
qed

theorem weak_password_warning_iff_witness:
  "start ''/srv/app'' [''USERNAME'' \<mapsto> ''sync'', ''PASSWORD'' \<mapsto> ''change-me'']
     (\<lambda>p. False) (\<lambda>p. None) (\<lambda>port host. None) =
     Inr [Warn weak_password_warning, Started ''0.0.0.0'' (Fin 2345) ''/srv/app/data'' ''sync''] \<and>
   (\<exists>w. Warn w \<in> set [Warn weak_password_warning,
                        Started ''0.0.0.0'' (Fin 2345) ''/srv/app/data'' ''sync''])"
  using weak_password_warning_iff [OF start_weak_password]
  by (simp add: start_weak_password)

section \<open>Properties of the front door\<close>

lemma toLowerCase_names:
  "toLowerCase ''Access-Control-Allow-Origin'' = ''access-control-allow-origin''"
  "toLowerCase ''Vary'' = ''vary''"
  "toLowerCase ''Access-Control-Allow-Credentials'' = ''access-control-allow-credentials''"
  "toLowerCase ''X-Content-Type-Options'' = ''x-content-type-options''"
  "toLowerCase ''Referrer-Policy'' = ''referrer-policy''"
  "toLowerCase ''Access-Control-Allow-Methods'' = ''access-control-allow-methods''"
  "toLowerCase ''Access-Control-Allow-Headers'' = ''access-control-allow-headers''"
  "toLowerCase ''Access-Control-Expose-Headers'' = ''access-control-expose-headers''"
  "toLowerCase ''Content-Type'' = ''content-type''"
  "toLowerCase ''WWW-Authenticate'' = ''www-authenticate''"
  by code_simp+

lemma getHeader_setHeader:
  "getHeader (setHeader n v res) m =
     (if toLowerCase m = toLowerCase n then Some v else getHeader res m)"
  by (simp add: getHeader_def setHeader_def)

lemma getHeader_end_response: "getHeader (end_response d res) m = getHeader res m"
  by (simp add: getHeader_def end_response_def)

lemma getHeader_statusCode: "getHeader (res\<lparr>statusCode := c\<rparr>) m = getHeader res m"
  by (simp add: getHeader_def)

lemmas header_simps = getHeader_setHeader getHeader_end_response getHeader_statusCode
  toLowerCase_names

lemma setCorsHeaders_fixed: "carries_fixed_headers req (setCorsHeaders req res)"
  by (simp add: carries_fixed_headers_def setCorsHeaders_def header_simps)

lemma setCorsHeaders_lists: "carries_cors_lists (setCorsHeaders req res)"
  by (simp add: carries_cors_lists_def setCorsHeaders_def header_simps)

lemma setCorsHeaders_untouched:
  "statusCode (setCorsHeaders req res) = statusCode res"
  "body (setCorsHeaders req res) = body res"
  "finished (setCorsHeaders req res) = finished res"
  "hasBody (setCorsHeaders req res) = hasBody res"
  by (simp_all add: setCorsHeaders_def setHeader_def)

text \<open>The three branches of the listener.\<close>

lemma serve_options:
  "method req = ''OPTIONS'' \<Longrightarrow>
   serve ex req st =
     (end_response [] ((setCorsHeaders req (new_response req))\<lparr>statusCode := 204\<rparr>), st)"
  by (simp add: serve_def requestListener_def)

lemma serve_health:
  "method req \<noteq> ''OPTIONS'' \<Longrightarrow> url req = ''/health'' \<Longrightarrow>
   serve ex req st =
     (end_response ''ok''
        (setHeader ''Content-Type'' ''text/plain; charset=utf-8''
           ((setCorsHeaders req (new_response req))\<lparr>statusCode := 200\<rparr>)), st)"
  by (simp add: serve_def requestListener_def)

lemma serve_dispatch:
  "method req \<noteq> ''OPTIONS'' \<Longrightarrow> url req \<noteq> ''/health'' \<Longrightarrow>
   serve ex req st = ex req (setCorsHeaders req (new_response req)) st"
  by (simp add: serve_def requestListener_def)

lemma allowOrigin_authorization:
  "allowOrigin (req\<lparr>headers := (headers req)(''authorization'' := a)\<rparr>) = allowOrigin req"
  by (simp add: allowOrigin_def)

lemma new_response_authorization:
  "new_response (req\<lparr>headers := (headers req)(''authorization'' := a)\<rparr>) = new_response req"
  by (simp add: new_response_def)

lemma setCorsHeaders_authorization:
  "setCorsHeaders (req\<lparr>headers := (headers req)(''authorization'' := a)\<rparr>) res =
   setCorsHeaders req res"
  by (simp add: setCorsHeaders_def allowOrigin_authorization)

subsection \<open>The health check\<close>

text \<open>
  C3. A \<open>GET\<close> request whose URL is \<open>/health\<close> is answered with status 200 and the body
  \<open>ok\<close>, and the response carries the CORS headers, \<open>Access-Control-Allow-Origin\<close> among
  them. The engine is not called: its state is returned unchanged, and the response is
  the same for every engine, every state of the engine (so before and after any write)
  and every value, or absence, of the \<open>authorization\<close> header.
\<close>

theorem health_get_ok:
  assumes "method req = ''GET''" and "url req = ''/health''"
  shows "statusCode (fst (serve ex req st)) = 200 \<and>
         body (fst (serve ex req st)) = ''ok'' \<and>
         finished (fst (serve ex req st)) \<and>
         carries_fixed_headers req (fst (serve ex req st)) \<and>
         carries_cors_lists (fst (serve ex req st)) \<and>
         getHeader (fst (serve ex req st)) ''Access-Control-Allow-Origin'' = Some (allowOrigin req) \<and>
         snd (serve ex req st) = st \<and>
         fst (serve ex req st) =
           fst (serve ex' (req\<lparr>headers := (headers req)(''authorization'' := a)\<rparr>) st')"
proof -
  from assms have m: "method req \<noteq> ''OPTIONS''"
    by simp
  let ?req' = "req\<lparr>headers := (headers req)(''authorization'' := a)\<rparr>"
  from assms have m': "method ?req' \<noteq> ''OPTIONS''" and u': "url ?req' = ''/health''"
    by simp_all
  have fixed: "carries_fixed_headers req (fst (serve ex req st))"
    using setCorsHeaders_fixed [of req "new_response req"]
    by (simp add: serve_health [OF m assms(2)] carries_fixed_headers_def header_simps)
  then have origin:
    "getHeader (fst (serve ex req st)) ''Access-Control-Allow-Origin'' = Some (allowOrigin req)"
    by (simp add: carries_fixed_headers_def)
  have lists: "carries_cors_lists (fst (serve ex req st))"
    using setCorsHeaders_lists [of req "new_response req"]
    by (simp add: serve_health [OF m assms(2)] carries_cors_lists_def header_simps)
  have same: "fst (serve ex req st) = fst (serve ex' ?req' st')"
    by (simp add: serve_health [OF m assms(2)] serve_health [OF m' u']
        setCorsHeaders_authorization new_response_authorization)
  have rest: "statusCode (fst (serve ex req st)) = 200 \<and>
      body (fst (serve ex req st)) = ''ok'' \<and> finished (fst (serve ex req st)) \<and>
      snd (serve ex req st) = st"
    by (simp add: serve_health [OF m assms(2)] end_response_def sends_body_def setHeader_def
        setCorsHeaders_untouched new_response_def assms(1))
  from fixed lists origin same rest show ?thesis
    by blast
qed

theorem health_get_ok_witness:
  "statusCode (fst (serve example_engine
      \<lparr>method = ''GET'', url = ''/health'', headers = Map.empty\<rparr> 7)) = 200 \<and>
   body (fst (serve example_engine
      \<lparr>method = ''GET'', url = ''/health'', headers = Map.empty\<rparr> 7)) = ''ok'' \<and>
   getHeader (fst (serve example_engine
      \<lparr>method = ''GET'', url = ''/health'', headers = Map.empty\<rparr> 7))
      ''Access-Control-Allow-Origin'' = Some ''*'' \<and>
   snd (serve example_engine
      \<lparr>method = ''GET'', url = ''/health'', headers = Map.empty\<rparr> 7) = 7"
  using health_get_ok [where req = "\<lparr>method = ''GET'', url = ''/health'', headers = Map.empty\<rparr>"
      and ex = example_engine and st = 7 and ex' = example_engine and st' = 7 and a = None]
  by (simp add: allowOrigin_def)

subsection \<open>The preflight\<close>

text \<open>
  C4. A request whose method is \<open>OPTIONS\<close>, on any URL (\<open>/health\<close> too, since the method
  is tested first), is answered with status 204, an empty body and the CORS headers,
  the method and header lists among them. The engine is not called: its state is
  returned unchanged and the response is the same for every engine and state.
\<close>

theorem options_preflight:
  assumes "method req = ''OPTIONS''"
  shows "statusCode (fst (serve ex req st)) = 204 \<and>
         body (fst (serve ex req st)) = [] \<and>
         finished (fst (serve ex req st)) \<and>
         carries_fixed_headers req (fst (serve ex req st)) \<and>
         carries_cors_lists (fst (serve ex req st)) \<and>
         getHeader (fst (serve ex req st)) ''Content-Type'' = None \<and>
         snd (serve ex req st) = st \<and>
         fst (serve ex req st) = fst (serve ex' req st')"
proof -
  have fixed: "carries_fixed_headers req (fst (serve ex req st))"
    using setCorsHeaders_fixed [of req "new_response req"]
    by (simp add: serve_options [OF assms] carries_fixed_headers_def header_simps)
  have lists: "carries_cors_lists (fst (serve ex req st))"
    using setCorsHeaders_lists [of req "new_response req"]
    by (simp add: serve_options [OF assms] carries_cors_lists_def header_simps)
  have no_type: "getHeader (fst (serve ex req st)) ''Content-Type'' = None"
    by (simp add: serve_options [OF assms] setCorsHeaders_def header_simps)
       (simp add: getHeader_def new_response_def)
  have rest: "statusCode (fst (serve ex req st)) = 204 \<and> body (fst (serve ex req st)) = [] \<and>
      finished (fst (serve ex req st)) \<and> snd (serve ex req st) = st \<and>
      fst (serve ex req st) = fst (serve ex' req st')"
    by (simp add: serve_options [OF assms] end_response_def sends_body_def
        setCorsHeaders_untouched new_response_def)
  from fixed lists no_type rest show ?thesis
    by blast
qed

theorem options_preflight_witness:
  "statusCode (fst (serve example_engine
      \<lparr>method = ''OPTIONS'', url = ''/health'', headers = Map.empty\<rparr> 7)) = 204 \<and>
   body (fst (serve example_engine
      \<lparr>method = ''OPTIONS'', url = ''/health'', headers = Map.empty\<rparr> 7)) = [] \<and>
   snd (serve example_engine
      \<lparr>method = ''OPTIONS'', url = ''/health'', headers = Map.empty\<rparr> 7) = 7"
  using options_preflight
      [where req = "\<lparr>method = ''OPTIONS'', url = ''/health'', headers = Map.empty\<rparr>"
       and ex = example_engine and st = 7 and ex' = example_engine and st' = 7]
  by simp

subsection \<open>The headers of every response\<close>




subsection \<open>The health URL is matched exactly\<close>

text \<open>
  C9, as the claim states it, fails: a request with the URL \<open>/health\<close> does not receive the
  body \<open>ok\<close> for every method. The answer to \<open>HEAD /health\<close> has status 200 and no body.
\<close>

theorem head_health_no_body:
  "statusCode (fst (serve example_engine
      \<lparr>method = ''HEAD'', url = ''/health'', headers = Map.empty\<rparr> 0)) = 200 \<and>
   body (fst (serve example_engine
      \<lparr>method = ''HEAD'', url = ''/health'', headers = Map.empty\<rparr> 0)) = [] \<and>
   snd (serve example_engine
      \<lparr>method = ''HEAD'', url = ''/health'', headers = Map.empty\<rparr> 0) = 0"
  by (simp add: serve_health end_response_def sends_body_def setHeader_def
      setCorsHeaders_untouched new_response_def)

text \<open>
  C9, amended. The health branch compares the whole URL with \<open>/health\<close> and does not look
  at the method. A request with exactly this URL and any method but \<open>OPTIONS\<close> gets status
  200 whatever its headers, with the body \<open>ok\<close>, or no body when the method is \<open>HEAD\<close>; the
  engine is not called (its state is unchanged and the response does not depend on it).
  A request with any other URL and a method other than \<open>OPTIONS\<close> is handed to the engine:
  \<open>/health/\<close>, \<open>/health?...\<close> and \<open>/%68ealth\<close> among them. Which resource the engine then
  addresses is not the listener's matter.
\<close>

theorem health_short_circuit:
  "(method req \<noteq> ''OPTIONS'' \<and> url req = ''/health'' \<longrightarrow>
      statusCode (fst (serve ex req st)) = 200 \<and>
      body (fst (serve ex req st)) = (if method req = ''HEAD'' then [] else ''ok'') \<and>
      snd (serve ex req st) = st \<and>
      fst (serve ex req st) =
        fst (serve ex' (req\<lparr>headers := (headers req)(''authorization'' := a)\<rparr>) st')) \<and>
   (method req \<noteq> ''OPTIONS'' \<and> url req \<noteq> ''/health'' \<longrightarrow>
      serve ex req st = ex req (setCorsHeaders req (new_response req)) st) \<and>
   (method req \<noteq> ''OPTIONS'' \<and>
      (url req = ''/health/'' \<or> url req = ''/health?'' @ query \<or> url req = ''/%68ealth'') \<longrightarrow>
      serve ex req st = ex req (setCorsHeaders req (new_response req)) st)"
proof -
  have health: "statusCode (fst (serve ex req st)) = 200 \<and>
      body (fst (serve ex req st)) = (if method req = ''HEAD'' then [] else ''ok'') \<and>
      snd (serve ex req st) = st \<and>
      fst (serve ex req st) =
        fst (serve ex' (req\<lparr>headers := (headers req)(''authorization'' := a)\<rparr>) st')"
    if m: "method req \<noteq> ''OPTIONS''" and u: "url req = ''/health''"
  proof -
    let ?req' = "req\<lparr>headers := (headers req)(''authorization'' := a)\<rparr>"
    from m u have m': "method ?req' \<noteq> ''OPTIONS''" and u': "url ?req' = ''/health''"
      by simp_all
    have "fst (serve ex req st) = fst (serve ex' ?req' st')"
      by (simp add: serve_health [OF m u] serve_health [OF m' u'] setCorsHeaders_authorization
          new_response_authorization)
    moreover have "statusCode (fst (serve ex req st)) = 200 \<and>
        body (fst (serve ex req st)) = (if method req = ''HEAD'' then [] else ''ok'') \<and>
        snd (serve ex req st) = st"
      by (simp add: serve_health [OF m u] end_response_def sends_body_def setHeader_def
          setCorsHeaders_untouched new_response_def)
    ultimately show ?thesis
      by blast
  qed
  have other: "serve ex req st = ex req (setCorsHeaders req (new_response req)) st"
    if "method req \<noteq> ''OPTIONS''" and "url req \<noteq> ''/health''"
    using that by (rule serve_dispatch)
  have variants: "url req \<noteq> ''/health''"
    if "url req = ''/health/'' \<or> url req = ''/health?'' @ query \<or> url req = ''/%68ealth''"
    using that by auto
  from health other variants show ?thesis
    by blast
qed

theorem health_short_circuit_witness:
  "statusCode (fst (serve example_engine
      \<lparr>method = ''PUT'', url = ''/health'', headers = Map.empty\<rparr> 0)) = 200 \<and>
   body (fst (serve example_engine
      \<lparr>method = ''PUT'', url = ''/health'', headers = Map.empty\<rparr> 0)) = ''ok'' \<and>
   snd (serve example_engine
      \<lparr>method = ''PUT'', url = ''/health'', headers = Map.empty\<rparr> 0) = 0 \<and>
   body (fst (serve example_engine
      \<lparr>method = ''HEAD'', url = ''/health'', headers = Map.empty\<rparr> 0)) = [] \<and>
   statusCode (fst (serve example_engine
      \<lparr>method = ''PUT'', url = ''/health/'', headers = Map.empty\<rparr> 0)) = 401 \<and>
   snd (serve example_engine
      \<lparr>method = ''PUT'', url = ''/health/'', headers = Map.empty\<rparr> 0) = 1 \<and>
   snd (serve example_engine
      \<lparr>method = ''DELETE'', url = ''/health?x=1'', headers = Map.empty\<rparr> 0) = 1 \<and>
   snd (serve example_engine
      \<lparr>method = ''PUT'', url = ''/%68ealth'', headers = Map.empty\<rparr> 0) = 1"
proof -
  let ?put = "\<lparr>method = ''PUT'', url = ''/health'', headers = Map.empty\<rparr>"
  let ?head = "\<lparr>method = ''HEAD'', url = ''/health'', headers = Map.empty\<rparr>"
  let ?slash = "\<lparr>method = ''PUT'', url = ''/health/'', headers = Map.empty\<rparr>"
  let ?query = "\<lparr>method = ''DELETE'', url = ''/health?x=1'', headers = Map.empty\<rparr>"
  let ?coded = "\<lparr>method = ''PUT'', url = ''/%68ealth'', headers = Map.empty\<rparr>"
  from health_short_circuit [where req = ?put and ex = example_engine and st = 0
      and ex' = example_engine and st' = 0 and a = None]
  have put: "statusCode (fst (serve example_engine ?put 0)) = 200 \<and>
      body (fst (serve example_engine ?put 0)) = ''ok'' \<and>
      snd (serve example_engine ?put 0) = 0"
    by simp
  from health_short_circuit [where req = ?head and ex = example_engine and st = 0
      and ex' = example_engine and st' = 0 and a = None]
  have head: "body (fst (serve example_engine ?head 0)) = []"
    by simp
  from health_short_circuit [where req = ?slash and ex = example_engine and st = 0]
  have slash: "serve example_engine ?slash 0 =
      example_engine ?slash (setCorsHeaders ?slash (new_response ?slash)) 0"
    by simp
  from health_short_circuit [where req = ?query and ex = example_engine and st = 0
      and query = "''x=1''"]
  have query: "serve example_engine ?query 0 =
      example_engine ?query (setCorsHeaders ?query (new_response ?query)) 0"
    by simp
  from health_short_circuit [where req = ?coded and ex = example_engine and st = 0]
  have coded: "serve example_engine ?coded 0 =
      example_engine ?coded (setCorsHeaders ?coded (new_response ?coded)) 0"
    by simp
  from put head slash query coded show ?thesis
    by (simp add: example_engine_def end_response_def setHeader_def)
qed

end
